theory Spec2Isabelle
  imports Complex_Main
begin

section \<open>Order types (src/types/order.ts)\<close>

datatype OrderStatus = Pending | Routing | Building | Submitted | Confirmed | Failed

text \<open>
  Wall-clock instants (\<open>new Date()\<close>) are milliseconds since the epoch. ISO-8601 strings
  of equal layout are ordered as the instants they print, so the instant stands for the
  string. The n-th reading of the clock is \<open>clk n\<close>; the state counts the readings made.
\<close>

type_synonym instant = nat

text \<open>
  The \<open>updates\<close> argument of \<open>updateOrderStatus\<close>; the same object is stored as the
  \<open>metadata\<close> of the history entry. An absent key is \<open>None\<close>.
\<close>

record OrderUpdates =
  dexUsed :: "string option"
  executedPrice :: "string option"
  txHash :: "string option"
  failureReason :: "string option"

definition noUpdates :: OrderUpdates where
  "noUpdates = \<lparr>dexUsed = None, executedPrice = None, txHash = None, failureReason = None\<rparr>"

record StatusTransition =
  status :: OrderStatus
  timestamp :: instant
  metadata :: OrderUpdates

text \<open>
  The \<open>statusHistory\<close> column holds text. The worker only ever asks three things of it:
  is it falsy (null or the empty string), does \<open>JSON.parse\<close> throw on it, and is the
  parsed value an array. The column is kept as what \<open>JSON.parse\<close> makes of it;
  \<open>JSON.stringify\<close> of an array is \<open>ArrayJson\<close> of that array.
\<close>

datatype HistoryText =
    EmptyText
  | BadJson string
  | NonArrayJson string
  | ArrayJson "StatusTransition list"

text \<open>
  One record for the database row and for the \<open>OrderState\<close> snapshot sent to clients: the
  row keeps the history as text (\<open>'h = HistoryText\<close>), the snapshot as the parsed array.
\<close>

record 'h OrderFields =
  orderKey :: string
  tokenIn :: string
  tokenOut :: string
  amountIn :: string
  dexUsed :: "string option"
  executedPrice :: "string option"
  txHash :: "string option"
  status :: OrderStatus
  statusHistory :: 'h
  failureReason :: "string option"
  createdAt :: instant
  updatedAt :: instant

type_synonym Order = "HistoryText OrderFields"
type_synonym OrderState = "StatusTransition list OrderFields"

record WebSocketMessage =
  msgType :: string
  orderId :: string
  msgStatus :: OrderStatus
  order :: OrderState
  msgTimestamp :: instant

record DexQuote =
  dex :: string
  price :: string
  amountOut :: string
  estimatedGas :: "string option"

record OrderJobData =
  orderId :: string
  tokenIn :: string
  tokenOut :: string
  amountIn :: string
  wsClientId :: "string option"

text \<open>A thrown value: an \<open>Error\<close> with its message, or something that is no \<open>Error\<close>.\<close>

datatype thrown = Error string | NonError

section \<open>Reading decimal text\<close>

definition isDigit :: "char \<Rightarrow> bool" where
  "isDigit c = (c \<in> set ''0123456789'')"

definition digitValue :: "char \<Rightarrow> nat" where
  "digitValue c = of_char c - 48"

definition digitsToNat :: "string \<Rightarrow> nat" where
  "digitsToNat ds = foldl (\<lambda>n c. 10 * n + digitValue c) 0 ds"

text \<open>
  The value of plain decimal text: an optional sign, digits, an optional point and
  fraction digits, at least one digit in all, and nothing else. Exact, as a rational.
\<close>

definition decimalValue :: "string \<Rightarrow> rat option" where
  "decimalValue s =
     (let neg = (case s of c # _ \<Rightarrow> c = CHR ''-'' | [] \<Rightarrow> False);
          body = (case s of c # r \<Rightarrow> if c = CHR ''-'' \<or> c = CHR ''+'' then r else s | [] \<Rightarrow> s);
          ip = takeWhile isDigit body;
          rest = dropWhile isDigit body;
          fp = (case rest of [] \<Rightarrow> Some [] | c # f \<Rightarrow> if c = CHR ''.'' then Some f else None)
      in case fp of
           None \<Rightarrow> None
         | Some f \<Rightarrow>
             if list_all isDigit f \<and> (ip \<noteq> [] \<or> f \<noteq> [])
             then Some ((if neg then - 1 else 1) *
                        (of_nat (digitsToNat ip) + of_nat (digitsToNat f) / 10 ^ length f))
             else None)"

definition nonNegativeDecimal :: "string \<Rightarrow> bool" where
  "nonNegativeDecimal s = (case decimalValue s of Some v \<Rightarrow> 0 \<le> v | None \<Rightarrow> False)"

section \<open>MockDexRouter (src/dex/MockDexRouter.ts)\<close>

text \<open>
  A JavaScript number as far as the comparison \<open>x > y\<close> can tell numbers apart: not-a-number, the two
  infinities, or a finite value. \<open>x > y\<close> is false whenever either side is \<open>NaN\<close>.
\<close>

datatype js_number = NaN | NegInfinity | Finite rat | PosInfinity

fun js_gt :: "js_number \<Rightarrow> js_number \<Rightarrow> bool" where
  "js_gt NaN _ = False"
| "js_gt _ NaN = False"
| "js_gt NegInfinity _ = False"
| "js_gt _ PosInfinity = False"
| "js_gt PosInfinity _ = True"
| "js_gt _ NegInfinity = True"
| "js_gt (Finite a) (Finite b) = (b < a)"

text \<open>
  A reader for plain decimal text, used for the concrete inputs only. It agrees with the
  built-in \<open>parseFloat\<close> on text such as \<open>105\<close>, \<open>105.5\<close> and \<open>abc\<close>; it is not the
  built-in: exponent notation, a number followed by other text and \<open>Infinity\<close> read as
  \<open>NaN\<close> here, and values are exact where doubles round. The selection below takes the
  reader as a parameter, so what is proved of it holds for the built-in as well.
\<close>

definition parseFloat_decimal :: "string \<Rightarrow> js_number" where
  "parseFloat_decimal s = (case decimalValue s of Some v \<Rightarrow> Finite v | None \<Rightarrow> NaN)"

text \<open>
  \<open>getBestQuote\<close> once both quotes have arrived:
  \<^verbatim>\<open>parseFloat(raydiumQuote.amountOut) > parseFloat(meteoraQuote.amountOut)
      ? raydiumQuote : meteoraQuote\<close>
\<close>

definition getBestQuote :: "(string \<Rightarrow> js_number) \<Rightarrow> DexQuote \<Rightarrow> DexQuote \<Rightarrow> DexQuote" where
  "getBestQuote parseFloat raydiumQuote meteoraQuote =
     (if js_gt (parseFloat (amountOut raydiumQuote)) (parseFloat (amountOut meteoraQuote))
      then raydiumQuote
      else meteoraQuote)"

text \<open>
  What the router's calls do within one run of the worker: \<open>Promise.all\<close> of the two
  quote calls rejects or yields both quotes; \<open>executeSwap\<close> rejects or yields a hash.
\<close>

record RouterCalls =
  quotes :: "thrown + (DexQuote \<times> DexQuote)"
  swap :: "thrown + string"

section \<open>WebSocketManager (src/websocket/WebSocketManager.ts)\<close>

text \<open>
  A connection as the manager sees it: its \<open>readyState\<close> (1 is OPEN) and whether
  \<open>send\<close> throws. A \<open>Set\<close> of client ids is a list in insertion order.
\<close>

record WebSocket =
  readyState :: nat
  sendThrows :: bool

record WebSocketManager =
  clients :: "string \<rightharpoonup> WebSocket"
  orderClients :: "string \<rightharpoonup> string list"

definition registerClient :: "string \<Rightarrow> WebSocket \<Rightarrow> WebSocketManager \<Rightarrow> WebSocketManager" where
  "registerClient clientId ws m = m\<lparr>clients := (clients m)(clientId \<mapsto> ws)\<rparr>"

definition setAdd :: "string \<Rightarrow> string list \<Rightarrow> string list" where
  "setAdd x xs = (if x \<in> set xs then xs else xs @ [x])"

definition subscribeToOrder :: "string \<Rightarrow> string \<Rightarrow> WebSocketManager \<Rightarrow> WebSocketManager" where
  "subscribeToOrder clientId oid m =
     m\<lparr>orderClients := (orderClients m)
          (oid \<mapsto> setAdd clientId (case orderClients m oid of None \<Rightarrow> [] | Some s \<Rightarrow> s))\<rparr>"

definition unregisterClient :: "string \<Rightarrow> WebSocketManager \<Rightarrow> WebSocketManager" where
  "unregisterClient clientId m =
     m\<lparr>clients := (clients m)(clientId := None),
       orderClients := (\<lambda>oid. case orderClients m oid of
                                 None \<Rightarrow> None
                               | Some clientSet \<Rightarrow>
                                   (let s = removeAll clientId clientSet
                                    in if length s = 0 then None else Some s))\<rparr>"

text \<open>
  The loop of \<open>broadcastOrderUpdate\<close> over the subscribers, with the manager as it is
  when each client is reached and the messages sent so far. The only element the loop
  removes from the set it walks is the one it is at, and a \<open>Set\<close> holds it once, so
  walking the set is walking the list of its elements at the start.
\<close>

fun sendToClients ::
  "WebSocketMessage \<Rightarrow> string list \<Rightarrow> WebSocketManager \<Rightarrow> (string \<times> WebSocketMessage) list
   \<Rightarrow> WebSocketManager \<times> (string \<times> WebSocketMessage) list" where
  "sendToClients message [] m out = (m, out)"
| "sendToClients message (clientId # rest) m out =
     (case clients m clientId of
        Some ws \<Rightarrow>
          if readyState ws = 1
          then (if sendThrows ws
                then sendToClients message rest (unregisterClient clientId m) out
                else sendToClients message rest m (out @ [(clientId, message)]))
          else sendToClients message rest (unregisterClient clientId m) out
      | None \<Rightarrow> sendToClients message rest (unregisterClient clientId m) out)"

definition broadcastOrderUpdate ::
  "instant \<Rightarrow> OrderState \<Rightarrow> WebSocketManager
   \<Rightarrow> WebSocketManager \<times> (string \<times> WebSocketMessage) list" where
  "broadcastOrderUpdate now ord m =
     (let message = \<lparr>msgType = ''status_update'', orderId = orderKey ord,
                     msgStatus = status ord, order = ord, msgTimestamp = now\<rparr>;
          subscribedClients = (case orderClients m (orderKey ord) of None \<Rightarrow> [] | Some s \<Rightarrow> s)
      in sendToClients message subscribedClients m [])"

text \<open>A client the loop sends to: registered, open, and \<open>send\<close> does not throw.\<close>

definition delivers :: "WebSocketManager \<Rightarrow> string \<Rightarrow> bool" where
  "delivers m c = (case clients m c of Some ws \<Rightarrow> readyState ws = 1 \<and> \<not> sendThrows ws | None \<Rightarrow> False)"

text \<open>The subscriber set of an order: the empty set when the order has none.\<close>

definition subscribers :: "WebSocketManager \<Rightarrow> string \<Rightarrow> string list" where
  "subscribers m oid = (case orderClients m oid of None \<Rightarrow> [] | Some s \<Rightarrow> s)"

section \<open>The queue (src/queue/orderQueue.ts)\<close>

datatype JobState = Waiting | Active | Completed | FailedJob

record Job =
  jobId :: string
  name :: string
  jobData :: OrderJobData
  state :: JobState
  attemptsMade :: nat

text \<open>
  Modelled from the spec: \<open>Queue.add\<close> belongs to the BullMQ library, which is not part
  of the sources. The spec's contract for it: if a job with the same id is already waiting
  or active, the existing job is returned and no job is created; otherwise a new job is
  created in the waiting state. The queue is the list of its jobs, so that a duplicate
  would show.
\<close>

definition liveJob :: "string \<Rightarrow> Job \<Rightarrow> bool" where
  "liveJob jid j = (jobId j = jid \<and> (state j = Waiting \<or> state j = Active))"

definition queueAdd :: "string \<Rightarrow> OrderJobData \<Rightarrow> string \<Rightarrow> Job list \<Rightarrow> Job \<times> Job list" where
  "queueAdd jobName d jid q =
     (case find (liveJob jid) q of
        Some j \<Rightarrow> (j, q)
      | None \<Rightarrow>
          (let j = \<lparr>jobId = jid, name = jobName, jobData = d, state = Waiting, attemptsMade = 0\<rparr>
           in (j, q @ [j])))"

definition addOrderToQueue :: "OrderJobData \<Rightarrow> Job list \<Rightarrow> Job \<times> Job list" where
  "addOrderToQueue d q = queueAdd ''execute-order'' d (OrderJobData.orderId d) q"

section \<open>The state the controller and the worker act on\<close>

record World =
  orders :: "string \<rightharpoonup> Order"
  queue :: "Job list"
  wsManager :: WebSocketManager
  sent :: "(string \<times> WebSocketMessage) list"
  clockReads :: nat

section \<open>The worker (src/workers/orderWorker.ts)\<close>

text \<open>The operator \<open>a ?? b\<close>: \<open>a\<close> unless it is null or undefined.\<close>

definition nullish :: "'a option \<Rightarrow> 'a option \<Rightarrow> 'a option" where
  "nullish a b = (case a of Some v \<Rightarrow> Some v | None \<Rightarrow> b)"

text \<open>
  The parse at the head of \<open>updateOrderStatus\<close>: a falsy column leaves the empty array,
  a parse that throws is caught and resets to the empty array, and so does a parsed
  value that is no array.
\<close>

fun parseStatusHistory :: "HistoryText \<Rightarrow> StatusTransition list" where
  "parseStatusHistory EmptyText = []"
| "parseStatusHistory (BadJson _) = []"
| "parseStatusHistory (NonArrayJson _) = []"
| "parseStatusHistory (ArrayJson xs) = xs"

definition updateOrderStatus ::
  "(nat \<Rightarrow> instant) \<Rightarrow> string \<Rightarrow> OrderStatus \<Rightarrow> OrderUpdates \<Rightarrow> World \<Rightarrow> thrown + World" where
  "updateOrderStatus clk oid newStatus updates w =
     (case orders w oid of
        None \<Rightarrow> Inl (Error (''Order '' @ oid @ '' not found''))
      | Some ord \<Rightarrow>
          (let newTransition = \<lparr>StatusTransition.status = newStatus,
                                timestamp = clk (clockReads w),
                                metadata = updates\<rparr>;
               statusHistoryArray = parseStatusHistory (statusHistory ord) @ [newTransition];
               updatedOrder = ord
                 \<lparr>status := newStatus,
                  statusHistory := ArrayJson statusHistoryArray,
                  dexUsed := nullish (OrderUpdates.dexUsed updates) (dexUsed ord),
                  executedPrice := nullish (OrderUpdates.executedPrice updates) (executedPrice ord),
                  txHash := nullish (OrderUpdates.txHash updates) (txHash ord),
                  failureReason := nullish (OrderUpdates.failureReason updates) (failureReason ord),
                  updatedAt := clk (clockReads w + 1)\<rparr>;
               snapshot = \<lparr>orderKey = orderKey updatedOrder,
                           tokenIn = OrderFields.tokenIn updatedOrder,
                           tokenOut = OrderFields.tokenOut updatedOrder,
                           amountIn = OrderFields.amountIn updatedOrder,
                           dexUsed = dexUsed updatedOrder,
                           executedPrice = executedPrice updatedOrder,
                           txHash = txHash updatedOrder,
                           status = status updatedOrder,
                           statusHistory = statusHistoryArray,
                           failureReason = failureReason updatedOrder,
                           createdAt = createdAt updatedOrder,
                           updatedAt = updatedAt updatedOrder\<rparr>;
               (m, out) = broadcastOrderUpdate (clk (clockReads w + 2)) snapshot (wsManager w)
           in Inr (w\<lparr>orders := (orders w)(oid \<mapsto> updatedOrder),
                      wsManager := m,
                      sent := sent w @ out,
                      clockReads := clockReads w + 3\<rparr>)))"

definition errorMessage :: "thrown \<Rightarrow> string" where
  "errorMessage e = (case e of Error m \<Rightarrow> m | NonError \<Rightarrow> ''Unknown error'')"

text \<open>
  The \<open>catch\<close> block of the job handler, entered with the state as the failing step
  left it: mark the order failed with the error's message, then throw the error again.
  When marking it failed throws, that error leaves the handler instead.
\<close>

definition onFailure :: "(nat \<Rightarrow> instant) \<Rightarrow> string \<Rightarrow> thrown \<Rightarrow> World \<Rightarrow> (thrown + string) \<times> World" where
  "onFailure clk oid e w =
     (case updateOrderStatus clk oid Failed (noUpdates\<lparr>OrderUpdates.failureReason := Some (errorMessage e)\<rparr>) w of
        Inl e' \<Rightarrow> (Inl e', w)
      | Inr w' \<Rightarrow> (Inl e, w'))"

definition quoteUpdates :: "DexQuote \<Rightarrow> OrderUpdates" where
  "quoteUpdates bestQuote =
     noUpdates\<lparr>OrderUpdates.dexUsed := Some (dex bestQuote),
               OrderUpdates.executedPrice := Some (price bestQuote)\<rparr>"

text \<open>
  One run of the job handler: \<open>Inr txHash\<close> when it returns, \<open>Inl e\<close> when it throws
  \<open>e\<close> to the queue. The delays between the steps change nothing but the clock. A retry
  by the queue is another run of the handler, on the same job data, in the state the
  failed run left.
\<close>

definition orderWorker ::
  "(nat \<Rightarrow> instant) \<Rightarrow> (string \<Rightarrow> js_number) \<Rightarrow> RouterCalls \<Rightarrow> OrderJobData \<Rightarrow> World
   \<Rightarrow> (thrown + string) \<times> World" where
  "orderWorker clk parseFloat router d w =
     (let oid = OrderJobData.orderId d in
      case updateOrderStatus clk oid Routing noUpdates w of
        Inl e \<Rightarrow> onFailure clk oid e w
      | Inr w1 \<Rightarrow>
          (case quotes router of
             Inl e \<Rightarrow> onFailure clk oid e w1
           | Inr (raydiumQuote, meteoraQuote) \<Rightarrow>
               (let bestQuote = getBestQuote parseFloat raydiumQuote meteoraQuote in
                case updateOrderStatus clk oid Building (quoteUpdates bestQuote) w1 of
                  Inl e \<Rightarrow> onFailure clk oid e w1
                | Inr w2 \<Rightarrow>
                    (case updateOrderStatus clk oid Submitted (quoteUpdates bestQuote) w2 of
                       Inl e \<Rightarrow> onFailure clk oid e w2
                     | Inr w3 \<Rightarrow>
                         (case swap router of
                            Inl e \<Rightarrow> onFailure clk oid e w3
                          | Inr hash \<Rightarrow>
                              (case updateOrderStatus clk oid Confirmed
                                      ((quoteUpdates bestQuote)\<lparr>OrderUpdates.txHash := Some hash\<rparr>) w3 of
                                 Inl e \<Rightarrow> onFailure clk oid e w3
                               | Inr w4 \<Rightarrow> (Inr hash, w4)))))))"







section \<open>The controller (src/controllers/orderController.ts)\<close>

text \<open>A field of the request body: missing, a string, or a value of another type.\<close>

datatype field = Absent | Text string | NonText

record OrderRequest =
  tokenIn :: field
  tokenOut :: field
  amountIn :: field
  orderType :: field

record ValidRequest =
  validTokenIn :: string
  validTokenOut :: string
  validAmountIn :: string
  validOrderType :: string

text \<open>The pattern \<^verbatim>\<open>/^\d+(\.\d+)?$/\<close>.\<close>

definition amountPattern :: "string \<Rightarrow> bool" where
  "amountPattern s =
     (let ip = takeWhile isDigit s; rest = dropWhile isDigit s
      in ip \<noteq> [] \<and>
         (case rest of
            [] \<Rightarrow> True
          | c # f \<Rightarrow> c = CHR ''.'' \<and> f \<noteq> [] \<and> list_all isDigit f))"

text \<open>
  \<open>orderRequestSchema.safeParse\<close>: non-empty strings for the tokens, a string matching
  the pattern for the amount, and \<open>market\<close> or nothing for the order type.
\<close>

definition safeParse :: "OrderRequest \<Rightarrow> ValidRequest option" where
  "safeParse body =
     (case (OrderRequest.tokenIn body, OrderRequest.tokenOut body, OrderRequest.amountIn body) of
        (Text ti, Text to, Text a) \<Rightarrow>
          if 1 \<le> length ti \<and> 1 \<le> length to \<and> amountPattern a \<and>
             (orderType body = Absent \<or> orderType body = Text ''market'')
          then Some \<lparr>validTokenIn = ti, validTokenOut = to, validAmountIn = a,
                     validOrderType = ''market''\<rparr>
          else None
      | _ \<Rightarrow> None)"

record OrderResponse =
  respOrderId :: string
  respStatus :: OrderStatus
  respTokenIn :: string
  respTokenOut :: string
  respAmountIn :: string
  respCreatedAt :: instant

datatype ReplyBody = ErrorBody string "string option" | OrderBody OrderResponse

datatype Reply = Reply nat ReplyBody

text \<open>
  \<open>executeOrder\<close>, with the identifier \<open>uuidv4()\<close> returns as a parameter. The row's
  \<open>createdAt\<close> and \<open>updatedAt\<close> are the store's defaults, one reading of the clock. A
  \<open>create\<close> under an identifier the table already holds is refused by the store and the
  handler answers 500 with the store's message (its wording here stands for whatever the
  store says). Failures of the store or the queue themselves are outside this model.
\<close>

definition executeOrder ::
  "(nat \<Rightarrow> instant) \<Rightarrow> string \<Rightarrow> OrderRequest \<Rightarrow> World \<Rightarrow> Reply \<times> World" where
  "executeOrder clk uuid body w =
     (case safeParse body of
        None \<Rightarrow> (Reply 400 (ErrorBody ''Validation error'' None), w)
      | Some v \<Rightarrow>
          if validOrderType v \<noteq> ''market''
          then (Reply 400 (ErrorBody ''Only market orders are currently supported'' None), w)
          else
            (let initialStatusHistory =
                   [\<lparr>StatusTransition.status = Pending, timestamp = clk (clockReads w),
                     metadata = noUpdates\<rparr>]
             in case orders w uuid of
                  Some _ \<Rightarrow>
                    (Reply 500 (ErrorBody ''Internal server error''
                                  (Some ''Unique constraint failed on the fields: (id)'')),
                     w\<lparr>clockReads := clockReads w + 1\<rparr>)
                | None \<Rightarrow>
                    (let ord = \<lparr>orderKey = uuid,
                                tokenIn = validTokenIn v,
                                tokenOut = validTokenOut v,
                                amountIn = validAmountIn v,
                                dexUsed = None,
                                executedPrice = None,
                                txHash = None,
                                status = Pending,
                                statusHistory = ArrayJson initialStatusHistory,
                                failureReason = None,
                                createdAt = clk (clockReads w + 1),
                                updatedAt = clk (clockReads w + 1)\<rparr>;
                         (job, q) = addOrderToQueue
                                      \<lparr>orderId = uuid, tokenIn = validTokenIn v,
                                       tokenOut = validTokenOut v, amountIn = validAmountIn v,
                                       wsClientId = None\<rparr>
                                      (queue w)
                     in (Reply 201 (OrderBody
                           \<lparr>respOrderId = orderKey ord, respStatus = status ord,
                            respTokenIn = OrderFields.tokenIn ord,
                            respTokenOut = OrderFields.tokenOut ord,
                            respAmountIn = OrderFields.amountIn ord,
                            respCreatedAt = createdAt ord\<rparr>),
                         w\<lparr>orders := (orders w)(uuid \<mapsto> ord),
                           queue := q,
                           clockReads := clockReads w + 2\<rparr>))))"

section \<open>What a run of the worker leaves in the store\<close>

text \<open>
  Names for what the definitions above compute on a stored order: the row one call of
  \<open>updateOrderStatus\<close> writes, the state it returns, and the result and the row of one run
  of the job handler that begins at clock reading \<open>c\<close>. The lemmas below prove that they
  are what \<open>updateOrderStatus\<close> and \<open>orderWorker\<close> produce.
\<close>

definition transitionRow :: "instant \<Rightarrow> instant \<Rightarrow> OrderStatus \<Rightarrow> OrderUpdates \<Rightarrow> Order \<Rightarrow> Order" where
  "transitionRow t t' s u ord =
     ord\<lparr>status := s,
         statusHistory := ArrayJson (parseStatusHistory (statusHistory ord) @
           [\<lparr>StatusTransition.status = s, timestamp = t, metadata = u\<rparr>]),
         dexUsed := nullish (OrderUpdates.dexUsed u) (dexUsed ord),
         executedPrice := nullish (OrderUpdates.executedPrice u) (executedPrice ord),
         txHash := nullish (OrderUpdates.txHash u) (txHash ord),
         failureReason := nullish (OrderUpdates.failureReason u) (failureReason ord),
         updatedAt := t'\<rparr>"

definition failureUpdates :: "thrown \<Rightarrow> OrderUpdates" where
  "failureUpdates e = noUpdates\<lparr>OrderUpdates.failureReason := Some (errorMessage e)\<rparr>"

definition workerOutcome ::
  "(nat \<Rightarrow> instant) \<Rightarrow> nat \<Rightarrow> (string \<Rightarrow> js_number) \<Rightarrow> RouterCalls \<Rightarrow> Order
   \<Rightarrow> (thrown + string) \<times> Order" where
  "workerOutcome clk c parseFloat router ord =
     (let row1 = transitionRow (clk c) (clk (c + 1)) Routing noUpdates ord in
      case quotes router of
        Inl e \<Rightarrow> (Inl e, transitionRow (clk (c + 3)) (clk (c + 4)) Failed (failureUpdates e) row1)
      | Inr (raydiumQuote, meteoraQuote) \<Rightarrow>
          (let u = quoteUpdates (getBestQuote parseFloat raydiumQuote meteoraQuote);
               row2 = transitionRow (clk (c + 3)) (clk (c + 4)) Building u row1;
               row3 = transitionRow (clk (c + 6)) (clk (c + 7)) Submitted u row2
           in case swap router of
                Inl e \<Rightarrow>
                  (Inl e, transitionRow (clk (c + 9)) (clk (c + 10)) Failed (failureUpdates e) row3)
              | Inr hash \<Rightarrow>
                  (Inr hash, transitionRow (clk (c + 9)) (clk (c + 10)) Confirmed
                               (u\<lparr>OrderUpdates.txHash := Some hash\<rparr>) row3)))"

definition afterUpdate :: "(nat \<Rightarrow> instant) \<Rightarrow> string \<Rightarrow> OrderStatus \<Rightarrow> OrderUpdates \<Rightarrow> World \<Rightarrow> World" where
  "afterUpdate clk oid s u w = projr (updateOrderStatus clk oid s u w)"




section \<open>Concrete inputs\<close>

definition exampleClock :: "nat \<Rightarrow> instant" where
  "exampleClock n = 1000 + n"

definition pendingEntry :: StatusTransition where
  "pendingEntry = \<lparr>StatusTransition.status = Pending, timestamp = 1000, metadata = noUpdates\<rparr>"

definition emptyManager :: WebSocketManager where
  "emptyManager = \<lparr>clients = Map.empty, orderClients = Map.empty\<rparr>"

definition exampleOrder :: Order where
  "exampleOrder =
     \<lparr>orderKey = ''order-1'', tokenIn = ''SOL'', tokenOut = ''USDC'', amountIn = ''100'',
      dexUsed = None, executedPrice = None, txHash = None, status = Pending,
      statusHistory = ArrayJson [pendingEntry], failureReason = None,
      createdAt = 1001, updatedAt = 1001\<rparr>"

definition worldWith :: "Order \<Rightarrow> World" where
  "worldWith ord =
     \<lparr>orders = [''order-1'' \<mapsto> ord], queue = [], wsManager = emptyManager, sent = [],
      clockReads = 2\<rparr>"

definition confirmedOrder :: Order where
  "confirmedOrder =
     exampleOrder
       \<lparr>status := Confirmed,
        statusHistory := ArrayJson
          [pendingEntry,
           \<lparr>StatusTransition.status = Routing, timestamp = 1002, metadata = noUpdates\<rparr>,
           \<lparr>StatusTransition.status = Building, timestamp = 1005, metadata = noUpdates\<rparr>,
           \<lparr>StatusTransition.status = Submitted, timestamp = 1008, metadata = noUpdates\<rparr>,
           \<lparr>StatusTransition.status = Confirmed, timestamp = 1011, metadata = noUpdates\<rparr>]\<rparr>"

definition raydium105 :: DexQuote where
  "raydium105 = \<lparr>dex = ''raydium'', price = ''105'', amountOut = ''105'', estimatedGas = Some ''50000''\<rparr>"

definition raydium110 :: DexQuote where
  "raydium110 = \<lparr>dex = ''raydium'', price = ''110'', amountOut = ''110'', estimatedGas = Some ''50000''\<rparr>"

definition raydiumUnreadable :: DexQuote where
  "raydiumUnreadable = \<lparr>dex = ''raydium'', price = ''abc'', amountOut = ''abc'', estimatedGas = Some ''50000''\<rparr>"

definition meteora105 :: DexQuote where
  "meteora105 = \<lparr>dex = ''meteora'', price = ''105'', amountOut = ''105'', estimatedGas = Some ''45000''\<rparr>"

definition openSocket :: WebSocket where
  "openSocket = \<lparr>readyState = 1, sendThrows = False\<rparr>"

definition exampleManager :: WebSocketManager where
  "exampleManager =
     \<lparr>clients = [''c1'' \<mapsto> openSocket,
                 ''c2'' \<mapsto> openSocket\<lparr>readyState := 3\<rparr>,
                 ''c3'' \<mapsto> openSocket\<lparr>sendThrows := True\<rparr>,
                 ''c4'' \<mapsto> openSocket],
      orderClients = [''order-1'' \<mapsto> [''c2'', ''c3'', ''c1''], ''order-2'' \<mapsto> [''c2'', ''c4'']]\<rparr>"

definition exampleState :: OrderState where
  "exampleState =
     \<lparr>orderKey = ''order-1'', tokenIn = ''SOL'', tokenOut = ''USDC'', amountIn = ''100'',
      dexUsed = None, executedPrice = None, txHash = None, status = Routing,
      statusHistory = [pendingEntry], failureReason = None,
      createdAt = 1001, updatedAt = 1003\<rparr>"

definition emptyWorld :: World where
  "emptyWorld = \<lparr>orders = Map.empty, queue = [], wsManager = exampleManager, sent = [], clockReads = 0\<rparr>"

definition exampleBody :: OrderRequest where
  "exampleBody = \<lparr>tokenIn = Text ''SOL'', tokenOut = Text ''USDC'', amountIn = Text ''100'',
                   orderType = Text ''market''\<rparr>"

definition exampleJobData :: OrderJobData where
  "exampleJobData = \<lparr>orderId = ''order-1'', tokenIn = ''SOL'', tokenOut = ''USDC'',
                      amountIn = ''100'', wsClientId = None\<rparr>"

definition submittedWorld :: World where
  "submittedWorld = snd (executeOrder exampleClock ''order-1'' exampleBody emptyWorld)"

definition workingRouter :: RouterCalls where
  "workingRouter = \<lparr>quotes = Inr (raydium110, meteora105), swap = Inr ''0xabc''\<rparr>"

definition failingRouter :: RouterCalls where
  "failingRouter = \<lparr>quotes = Inl (Error ''boom''), swap = Inr ''0xabc''\<rparr>"

definition retryWorld :: World where
  "retryWorld = snd (orderWorker exampleClock parseFloat_decimal failingRouter exampleJobData submittedWorld)"

definition finalWorld :: World where
  "finalWorld = snd (orderWorker exampleClock parseFloat_decimal workingRouter exampleJobData retryWorld)"

definition activeJob :: Job where
  "activeJob = \<lparr>jobId = ''order-1'', name = ''execute-order'', jobData = exampleJobData,
                 state = Active, attemptsMade = 1\<rparr>"

definition completedJob :: Job where
  "completedJob = \<lparr>jobId = ''order-0'', name = ''execute-order'',
                    jobData = exampleJobData\<lparr>OrderJobData.orderId := ''order-0''\<rparr>,
                    state = Completed, attemptsMade = 1\<rparr>"






section \<open>Facts about \<open>updateOrderStatus\<close>\<close>

lemma updateOrderStatus_found:
  assumes "orders w oid = Some ord"
  shows "\<exists>w'. updateOrderStatus clk oid s u w = Inr w' \<and>
           orders w' = (orders w)(oid \<mapsto> ord
             \<lparr>status := s,
              statusHistory := ArrayJson (parseStatusHistory (statusHistory ord) @
                [\<lparr>StatusTransition.status = s, timestamp = clk (clockReads w), metadata = u\<rparr>]),
              dexUsed := nullish (OrderUpdates.dexUsed u) (dexUsed ord),
              executedPrice := nullish (OrderUpdates.executedPrice u) (executedPrice ord),
              txHash := nullish (OrderUpdates.txHash u) (txHash ord),
              failureReason := nullish (OrderUpdates.failureReason u) (failureReason ord),
              updatedAt := clk (clockReads w + 1)\<rparr>) \<and>
           clockReads w' = clockReads w + 3 \<and> queue w' = queue w"
  using assms by (simp add: updateOrderStatus_def Let_def split: prod.splits)

lemma updateOrderStatus_missing:
  assumes "orders w oid = None"
  shows "updateOrderStatus clk oid s u w = Inl (Error (''Order '' @ oid @ '' not found''))"
  using assms by (simp add: updateOrderStatus_def)

lemma js_gt_irrefl: "\<not> js_gt x x"
  by (cases x) simp_all

lemma js_gt_asym: "js_gt x y \<Longrightarrow> \<not> js_gt y x"
  by (cases x; cases y) simp_all

lemma decimalValue_105: "decimalValue ''105'' = Some 105"
  by (simp add: decimalValue_def isDigit_def digitsToNat_def digitValue_def)

lemma decimalValue_abc: "decimalValue ''abc'' = None"
  by (simp add: decimalValue_def isDigit_def)

lemma decimalValue_110: "decimalValue ''110'' = Some 110"
  by (simp add: decimalValue_def isDigit_def digitsToNat_def digitValue_def)

section \<open>Facts about the manager\<close>

lemma clients_unregisterClient: "clients (unregisterClient c m) = (clients m)(c := None)"
  by (simp add: unregisterClient_def)

lemma orderClients_unregisterClient:
  "orderClients (unregisterClient c m) oid =
     (case orderClients m oid of
        None \<Rightarrow> None
      | Some s \<Rightarrow> if removeAll c s = [] then None else Some (removeAll c s))"
  by (simp add: unregisterClient_def Let_def split: option.splits)

lemma unregisterClient_twice: "unregisterClient c (unregisterClient c m) = unregisterClient c m"
  by (simp add: unregisterClient_def fun_eq_iff Let_def split: option.splits)

lemma delivers_unregisterClient:
  "\<not> delivers m d \<Longrightarrow> delivers (unregisterClient d m) c = delivers m c"
  by (simp add: delivers_def clients_unregisterClient)

lemma sendToClients_out:
  "snd (sendToClients msg cs m out) = out @ map (\<lambda>c. (c, msg)) (filter (delivers m) cs)"
proof (induction cs arbitrary: m out)
  case Nil
  then show ?case by simp
next
  case (Cons c cs)
  show ?case
  proof (cases "delivers m c")
    case True
    then show ?thesis
      using Cons.IH [of m "out @ [(c, msg)]"]
      by (auto simp: delivers_def split: option.splits)
  next
    case False
    then have "delivers (unregisterClient c m) = delivers m"
      by (intro ext) (simp add: delivers_unregisterClient)
    with False show ?thesis
      using Cons.IH [of "unregisterClient c m" out]
      by (auto simp: delivers_def split: option.splits)
  qed
qed

lemma sendToClients_manager:
  "fst (sendToClients msg cs m out) = fold unregisterClient (filter (\<lambda>c. \<not> delivers m c) cs) m"
proof (induction cs arbitrary: m out)
  case Nil
  then show ?case by simp
next
  case (Cons c cs)
  show ?case
  proof (cases "delivers m c")
    case True
    then show ?thesis
      using Cons.IH [of m "out @ [(c, msg)]"]
      by (auto simp: delivers_def split: option.splits)
  next
    case False
    then have "delivers (unregisterClient c m) = delivers m"
      by (intro ext) (simp add: delivers_unregisterClient)
    with False show ?thesis
      using Cons.IH [of "unregisterClient c m" out]
      by (auto simp: delivers_def split: option.splits)
  qed
qed

lemma clients_fold_unregisterClient:
  "clients (fold unregisterClient ds m) c = (if c \<in> set ds then None else clients m c)"
  by (induction ds arbitrary: m) (auto simp: clients_unregisterClient)

lemma orderClients_fold_unregisterClient:
  "orderClients (fold unregisterClient ds m) oid =
     (case orderClients m oid of
        None \<Rightarrow> None
      | Some s \<Rightarrow>
          if ds \<noteq> [] \<and> filter (\<lambda>c. c \<notin> set ds) s = [] then None
          else Some (filter (\<lambda>c. c \<notin> set ds) s))"
proof (induction ds arbitrary: m)
  case Nil
  then show ?case by (simp split: option.splits)
next
  case (Cons d ds)
  have r: "filter (\<lambda>c. c \<notin> set ds) (removeAll d s) = filter (\<lambda>c. c \<notin> set (d # ds)) s" for s
    by (induction s) auto
  show ?case
    apply (simp only: fold_simps Cons.IH orderClients_unregisterClient)
    apply (cases "orderClients m oid")
     apply simp
    apply (simp only: option.case r split: if_splits)
    apply (auto simp: filter_empty_conv removeAll_filter_not_eq)
    done
qed

section \<open>Facts about the worker\<close>

lemma updateOrderStatus_Inr:
  "orders w oid \<noteq> None \<Longrightarrow> updateOrderStatus clk oid s u w = Inr (afterUpdate clk oid s u w)"
  by (auto simp: afterUpdate_def updateOrderStatus_def Let_def split: prod.splits)

lemma orders_afterUpdate:
  "orders w oid \<noteq> None \<Longrightarrow>
   orders (afterUpdate clk oid s u w) =
     (orders w)(oid \<mapsto> transitionRow (clk (clockReads w)) (clk (clockReads w + 1)) s u
                          (the (orders w oid)))"
  by (auto simp: afterUpdate_def updateOrderStatus_def transitionRow_def Let_def split: prod.splits)

lemma clockReads_afterUpdate:
  "orders w oid \<noteq> None \<Longrightarrow> clockReads (afterUpdate clk oid s u w) = clockReads w + 3"
  by (auto simp: afterUpdate_def updateOrderStatus_def Let_def split: prod.splits)

lemma orderWorker_found:
  assumes ord: "orders w (OrderJobData.orderId d) = Some ord"
  shows "\<exists>w'. orderWorker clk pf router d w =
                 (fst (workerOutcome clk (clockReads w) pf router ord), w') \<and>
               orders w' = (orders w)(OrderJobData.orderId d \<mapsto>
                             snd (workerOutcome clk (clockReads w) pf router ord))"
proof (cases "quotes router")
  case (Inl e)
  with ord show ?thesis
    by (simp add: orderWorker_def onFailure_def workerOutcome_def Let_def updateOrderStatus_Inr
          orders_afterUpdate clockReads_afterUpdate failureUpdates_def add.commute)
next
  case (Inr qs)
  note q = this
  obtain r m where qs: "qs = (r, m)" by (cases qs)
  show ?thesis
  proof (cases "swap router")
    case (Inl e)
    with ord q qs show ?thesis
      by (simp add: orderWorker_def onFailure_def workerOutcome_def Let_def updateOrderStatus_Inr
            orders_afterUpdate clockReads_afterUpdate failureUpdates_def add.commute)
  next
    case (Inr hash)
    with ord q qs show ?thesis
      by (simp add: orderWorker_def onFailure_def workerOutcome_def Let_def updateOrderStatus_Inr
            orders_afterUpdate clockReads_afterUpdate add.commute)
  qed
qed

lemma status_transitionRow: "status (transitionRow t t' s u ord) = s"
  by (simp add: transitionRow_def)

lemma history_transitionRow:
  "parseStatusHistory (statusHistory (transitionRow t t' s u ord)) =
     parseStatusHistory (statusHistory ord) @
       [\<lparr>StatusTransition.status = s, timestamp = t, metadata = u\<rparr>]"
  by (simp add: transitionRow_def)

lemma failureReason_transitionRow:
  "failureReason (transitionRow t t' s u ord) =
     nullish (OrderUpdates.failureReason u) (failureReason ord)"
  by (simp add: transitionRow_def)

lemma failureReason_quoteUpdates:
  "OrderUpdates.failureReason (quoteUpdates q) = None"
  "OrderUpdates.failureReason ((quoteUpdates q)\<lparr>OrderUpdates.txHash := h\<rparr>) = None"
  "OrderUpdates.failureReason noUpdates = None"
  "OrderUpdates.failureReason (failureUpdates e) = Some (errorMessage e)"
  by (simp_all add: quoteUpdates_def noUpdates_def failureUpdates_def)

lemmas transitionRow_simps =
  status_transitionRow history_transitionRow failureReason_transitionRow
  failureReason_quoteUpdates

lemma workerOutcome_Inr:
  assumes "fst (workerOutcome clk c pf router ord) = Inr hash"
  shows "status (snd (workerOutcome clk c pf router ord)) = Confirmed"
    and "map StatusTransition.status (parseStatusHistory (statusHistory (snd (workerOutcome clk c pf router ord)))) =
         map StatusTransition.status (parseStatusHistory (statusHistory ord)) @
           [Routing, Building, Submitted, Confirmed]"
    and "map timestamp (parseStatusHistory (statusHistory (snd (workerOutcome clk c pf router ord)))) =
         map timestamp (parseStatusHistory (statusHistory ord)) @
           [clk c, clk (c + 3), clk (c + 6), clk (c + 9)]"
    and "failureReason (snd (workerOutcome clk c pf router ord)) = failureReason ord"
  using assms
  by (auto simp: workerOutcome_def Let_def transitionRow_simps nullish_def
        split: sum.splits prod.splits)

lemma workerOutcome_Inl:
  assumes "fst (workerOutcome clk c pf router ord) = Inl e"
  shows "status (snd (workerOutcome clk c pf router ord)) = Failed"
    and "failureReason (snd (workerOutcome clk c pf router ord)) = Some (errorMessage e)"
    and "\<exists>es. parseStatusHistory (statusHistory (snd (workerOutcome clk c pf router ord))) =
           parseStatusHistory (statusHistory ord) @ es @
             [\<lparr>StatusTransition.status = Failed, timestamp = clk (c + 3 * length es),
               metadata = failureUpdates e\<rparr>]"
  using assms
  by (auto simp: workerOutcome_def Let_def transitionRow_simps nullish_def
        split: sum.splits prod.splits)

lemma orderWorker_result:
  assumes "orders w (OrderJobData.orderId d) = Some ord"
  shows "fst (orderWorker clk pf router d w) = fst (workerOutcome clk (clockReads w) pf router ord)"
    and "orders (snd (orderWorker clk pf router d w)) =
           (orders w)(OrderJobData.orderId d \<mapsto> snd (workerOutcome clk (clockReads w) pf router ord))"
  using orderWorker_found [OF assms, of clk pf router] by auto

lemma executeOrder_example:
  "fst (executeOrder exampleClock ''order-1'' exampleBody emptyWorld) =
     Reply 201 (OrderBody \<lparr>respOrderId = ''order-1'', respStatus = Pending, respTokenIn = ''SOL'',
                            respTokenOut = ''USDC'', respAmountIn = ''100'', respCreatedAt = 1001\<rparr>)"
  "orders submittedWorld = [''order-1'' \<mapsto> exampleOrder]"
  "clockReads submittedWorld = 2"
  "map jobId (queue submittedWorld) = [''order-1'']"
  by (simp_all add: submittedWorld_def executeOrder_def safeParse_def exampleBody_def
        emptyWorld_def amountPattern_def isDigit_def exampleClock_def exampleOrder_def
        pendingEntry_def addOrderToQueue_def queueAdd_def Let_def)













section \<open>Facts about the queue and the controller\<close>

lemma find_append_none:
  "find P xs = None \<Longrightarrow> find P (xs @ ys) = find P ys"
  by (induction xs) (auto split: if_splits)

lemma find_holds: "find P xs = Some x \<Longrightarrow> P x"
  by (induction xs) (auto split: if_splits)

lemma addOrderToQueue_found:
  "find (liveJob (OrderJobData.orderId d)) q = Some j \<Longrightarrow> addOrderToQueue d q = (j, q)"
  by (simp add: addOrderToQueue_def queueAdd_def)

lemma addOrderToQueue_finds_result:
  "find (liveJob (OrderJobData.orderId d)) (snd (addOrderToQueue d q)) = Some (fst (addOrderToQueue d q))"
  by (cases "find (liveJob (OrderJobData.orderId d)) q")
     (simp_all add: addOrderToQueue_def queueAdd_def Let_def find_append_none liveJob_def)

lemma isDigit_not_sign: "isDigit c \<Longrightarrow> c \<noteq> CHR ''-'' \<and> c \<noteq> CHR ''+''"
  by (auto simp: isDigit_def)

lemma amountPattern_nonNegativeDecimal:
  assumes "amountPattern s"
  shows "nonNegativeDecimal s"
proof -
  from assms have ip: "takeWhile isDigit s \<noteq> []"
    by (simp add: amountPattern_def Let_def)
  then obtain c r where s: "s = c # r" and c: "isDigit c"
    by (cases s) (auto split: if_splits)
  from c have ns: "c \<noteq> CHR ''-''" "c \<noteq> CHR ''+''"
    using isDigit_not_sign by auto
  show ?thesis
  proof (cases "dropWhile isDigit s")
    case Nil
    with ip ns s show ?thesis
      by (simp add: nonNegativeDecimal_def decimalValue_def Let_def)
  next
    case (Cons p f)
    with assms have "p = CHR ''.''" "list_all isDigit f"
      by (simp_all add: amountPattern_def Let_def)
    with Cons ip ns s show ?thesis
      by (simp add: nonNegativeDecimal_def decimalValue_def Let_def)
  qed
qed

section \<open>The claims\<close>

text \<open>
  C1. Every status transition that \<open>updateOrderStatus\<close> performs on a stored order writes
  one new row in one store update; in that row the status is the new status and the
  history is the history read from the old row (an unreadable column reads as the empty
  array) with exactly one entry appended, whose status is the new status. So the last
  entry's status equals the row's status, and a stored array \<open>xs\<close> becomes \<open>xs\<close> plus the
  entry.
\<close>

theorem updateOrderStatus_appends_with_status:
  assumes "orders w oid = Some ord"
  shows "\<exists>w' ord'. updateOrderStatus clk oid s u w = Inr w' \<and>
           orders w' = (orders w)(oid \<mapsto> ord') \<and>
           status ord' = s \<and>
           statusHistory ord' = ArrayJson (parseStatusHistory (statusHistory ord) @
             [\<lparr>StatusTransition.status = s, timestamp = clk (clockReads w), metadata = u\<rparr>]) \<and>
           (\<forall>xs. statusHistory ord = ArrayJson xs \<longrightarrow>
              statusHistory ord' = ArrayJson (xs @
                [\<lparr>StatusTransition.status = s, timestamp = clk (clockReads w), metadata = u\<rparr>])) \<and>
           StatusTransition.status (last (parseStatusHistory (statusHistory ord'))) = status ord'"
proof -
  from updateOrderStatus_found [OF assms, of clk s u]
  obtain w' where r: "updateOrderStatus clk oid s u w = Inr w'"
    and o: "orders w' = (orders w)(oid \<mapsto> ord
             \<lparr>status := s,
              statusHistory := ArrayJson (parseStatusHistory (statusHistory ord) @
                [\<lparr>StatusTransition.status = s, timestamp = clk (clockReads w), metadata = u\<rparr>]),
              dexUsed := nullish (OrderUpdates.dexUsed u) (dexUsed ord),
              executedPrice := nullish (OrderUpdates.executedPrice u) (executedPrice ord),
              txHash := nullish (OrderUpdates.txHash u) (txHash ord),
              failureReason := nullish (OrderUpdates.failureReason u) (failureReason ord),
              updatedAt := clk (clockReads w + 1)\<rparr>)"
    by blast
  show ?thesis
    apply (rule exI [of _ w'])
    apply (rule exI)
    apply (intro conjI)
         apply (rule r)
        apply (rule o)
       apply simp_all
    done
qed

theorem updateOrderStatus_appends_with_status_witness:
  "orders (worldWith exampleOrder) ''order-1'' = Some exampleOrder \<and>
   \<not> isl (updateOrderStatus exampleClock ''order-1'' Routing noUpdates (worldWith exampleOrder)) \<and>
   statusHistory exampleOrder = ArrayJson [pendingEntry] \<and>
   map_option statusHistory
     (orders (projr (updateOrderStatus exampleClock ''order-1'' Routing noUpdates
                       (worldWith exampleOrder))) ''order-1'') =
     Some (ArrayJson [pendingEntry,
             \<lparr>StatusTransition.status = Routing, timestamp = 1002, metadata = noUpdates\<rparr>])"
proof -
  have h: "orders (worldWith exampleOrder) ''order-1'' = Some exampleOrder"
    by (simp add: worldWith_def)
  from updateOrderStatus_appends_with_status [OF h, of exampleClock Routing noUpdates]
  show ?thesis
    using h by (auto simp: exampleOrder_def exampleClock_def worldWith_def)
qed

text \<open>
  C2 (amended). \<open>updateOrderStatus\<close> checks no transition. For every stored order and
  every target status, from a terminal status or backwards along the path as well, it
  raises no error, sets the status to the target and appends the entry. It raises an
  error only when no order is stored under the id, and then it writes nothing.
\<close>

theorem updateOrderStatus_checks_no_transition:
  "(\<forall>ord. orders w oid = Some ord \<longrightarrow>
      (\<exists>w' ord'. updateOrderStatus clk oid s u w = Inr w' \<and>
         orders w' oid = Some ord' \<and> status ord' = s \<and>
         statusHistory ord' = ArrayJson (parseStatusHistory (statusHistory ord) @
           [\<lparr>StatusTransition.status = s, timestamp = clk (clockReads w), metadata = u\<rparr>]))) \<and>
   (orders w oid = None \<longrightarrow>
      updateOrderStatus clk oid s u w = Inl (Error (''Order '' @ oid @ '' not found'')))"
proof (intro conjI allI impI)
  fix ord
  assume h: "orders w oid = Some ord"
  from updateOrderStatus_found [OF h, of clk s u]
  show "\<exists>w' ord'. updateOrderStatus clk oid s u w = Inr w' \<and>
         orders w' oid = Some ord' \<and> status ord' = s \<and>
         statusHistory ord' = ArrayJson (parseStatusHistory (statusHistory ord) @
           [\<lparr>StatusTransition.status = s, timestamp = clk (clockReads w), metadata = u\<rparr>])"
    by auto
next
  assume "orders w oid = None"
  then show "updateOrderStatus clk oid s u w = Inl (Error (''Order '' @ oid @ '' not found''))"
    by (rule updateOrderStatus_missing)
qed

theorem updateOrderStatus_checks_no_transition_witness:
  "orders (worldWith confirmedOrder) ''order-1'' = Some confirmedOrder \<and>
   \<not> isl (updateOrderStatus exampleClock ''order-1'' Pending noUpdates (worldWith confirmedOrder)) \<and>
   orders (worldWith confirmedOrder) ''order-2'' = None \<and>
   updateOrderStatus exampleClock ''order-2'' Routing noUpdates (worldWith confirmedOrder) =
     Inl (Error ''Order order-2 not found'')"
  using updateOrderStatus_checks_no_transition
          [of "worldWith confirmedOrder" "''order-1''" exampleClock Pending noUpdates]
        updateOrderStatus_checks_no_transition
          [of "worldWith confirmedOrder" "''order-2''" exampleClock Routing noUpdates]
  by (auto simp: worldWith_def)

text \<open>
  C2 as stated fails: an order whose status is \<open>confirmed\<close> is moved back to \<open>routing\<close>
  without any error, and its status and history are overwritten.
\<close>

theorem updateOrderStatus_overwrites_confirmed:
  "status confirmedOrder = Confirmed \<and>
   \<not> isl (updateOrderStatus exampleClock ''order-1'' Routing noUpdates (worldWith confirmedOrder)) \<and>
   map_option status
     (orders (projr (updateOrderStatus exampleClock ''order-1'' Routing noUpdates
                       (worldWith confirmedOrder))) ''order-1'') = Some Routing \<and>
   map_option (length \<circ> parseStatusHistory \<circ> statusHistory)
     (orders (projr (updateOrderStatus exampleClock ''order-1'' Routing noUpdates
                       (worldWith confirmedOrder))) ''order-1'') = Some 6"
  by (simp add: updateOrderStatus_def worldWith_def confirmedOrder_def exampleOrder_def
        broadcastOrderUpdate_def emptyManager_def Let_def)

text \<open>
  C3 (amended). \<open>getBestQuote\<close> returns Raydium's quote exactly when its \<open>amountOut\<close>
  reads strictly greater than Meteora's, and Meteora's quote in every other case: when
  Meteora's is strictly greater, when the two are equal, so a tie goes to the source
  registered second, and when either does not read as a number.
\<close>

theorem getBestQuote_strict_or_second:
  "(js_gt (pf (amountOut r)) (pf (amountOut m)) \<longrightarrow> getBestQuote pf r m = r) \<and>
   (\<not> js_gt (pf (amountOut r)) (pf (amountOut m)) \<longrightarrow> getBestQuote pf r m = m) \<and>
   (js_gt (pf (amountOut m)) (pf (amountOut r)) \<longrightarrow> getBestQuote pf r m = m) \<and>
   (pf (amountOut r) = pf (amountOut m) \<longrightarrow> getBestQuote pf r m = m)"
  using js_gt_asym [of "pf (amountOut m)" "pf (amountOut r)"]
        js_gt_irrefl [of "pf (amountOut m)"]
  by (auto simp: getBestQuote_def)

theorem getBestQuote_strict_or_second_witness:
  "js_gt (parseFloat_decimal (amountOut raydium110)) (parseFloat_decimal (amountOut meteora105)) \<and>
   getBestQuote parseFloat_decimal raydium110 meteora105 = raydium110 \<and>
   js_gt (parseFloat_decimal (amountOut raydium110)) (parseFloat_decimal (amountOut meteora105)) \<and>
   getBestQuote parseFloat_decimal meteora105 raydium110 = raydium110 \<and>
   parseFloat_decimal (amountOut raydium105) = parseFloat_decimal (amountOut meteora105) \<and>
   getBestQuote parseFloat_decimal raydium105 meteora105 = meteora105 \<and>
   parseFloat_decimal (amountOut raydiumUnreadable) = NaN \<and>
   \<not> js_gt (parseFloat_decimal (amountOut raydiumUnreadable))
           (parseFloat_decimal (amountOut meteora105)) \<and>
   getBestQuote parseFloat_decimal raydiumUnreadable meteora105 = meteora105 \<and>
   \<not> js_gt (parseFloat_decimal (amountOut raydium110))
           (parseFloat_decimal (amountOut raydiumUnreadable)) \<and>
   getBestQuote parseFloat_decimal raydium110 raydiumUnreadable = raydiumUnreadable"
  using getBestQuote_strict_or_second [of parseFloat_decimal raydium110 meteora105]
        getBestQuote_strict_or_second [of parseFloat_decimal meteora105 raydium110]
        getBestQuote_strict_or_second [of parseFloat_decimal raydium105 meteora105]
        getBestQuote_strict_or_second [of parseFloat_decimal raydiumUnreadable meteora105]
        getBestQuote_strict_or_second [of parseFloat_decimal raydium110 raydiumUnreadable]
  by (simp add: parseFloat_decimal_def raydium110_def raydium105_def meteora105_def
        raydiumUnreadable_def decimalValue_105 decimalValue_110 decimalValue_abc)

text \<open>
  C3 as stated fails on a tie: with both sources quoting \<open>105\<close>, the quote returned is
  Meteora's, not Raydium's.
\<close>

theorem getBestQuote_tie_returns_meteora:
  "parseFloat_decimal (amountOut raydium105) = Finite 105 \<and>
   parseFloat_decimal (amountOut meteora105) = Finite 105 \<and>
   dex (getBestQuote parseFloat_decimal raydium105 meteora105) = ''meteora'' \<and>
   getBestQuote parseFloat_decimal raydium105 meteora105 \<noteq> raydium105"
  by (simp add: getBestQuote_def parseFloat_decimal_def raydium105_def meteora105_def
        decimalValue_105)

text \<open>
  C4 (amended). A run of the worker that returns appends \<open>routing, building, submitted,
  confirmed\<close> to the history the order had when the run began, and leaves the order
  \<open>confirmed\<close>. When the run is the order's first (the history is the single \<open>pending\<close>
  entry written at creation) the statuses are exactly \<open>pending, routing, building,
  submitted, confirmed\<close>; a lifecycle completed on a retry keeps the entries of the earlier
  attempts, \<open>failed\<close> among them, in front of that tail. The timestamps are non-decreasing
  when the clock's readings are and the earlier entries are not ahead of the clock.
\<close>

theorem orderWorker_success_history:
  assumes run: "orderWorker clk pf router d w = (Inr hash, w')"
    and ord: "orders w (OrderJobData.orderId d) = Some ord"
  shows "\<exists>ord'. orders w' (OrderJobData.orderId d) = Some ord' \<and> status ord' = Confirmed \<and>
      map StatusTransition.status (parseStatusHistory (statusHistory ord')) =
        map StatusTransition.status (parseStatusHistory (statusHistory ord)) @
          [Routing, Building, Submitted, Confirmed] \<and>
      (map StatusTransition.status (parseStatusHistory (statusHistory ord)) = [Pending] \<longrightarrow>
         map StatusTransition.status (parseStatusHistory (statusHistory ord')) =
           [Pending, Routing, Building, Submitted, Confirmed]) \<and>
      (mono clk \<and> sorted (map timestamp (parseStatusHistory (statusHistory ord))) \<and>
       (\<forall>e \<in> set (parseStatusHistory (statusHistory ord)). timestamp e \<le> clk (clockReads w)) \<longrightarrow>
         sorted (map timestamp (parseStatusHistory (statusHistory ord'))))"
proof -
  define c where "c = clockReads w"
  define ord' where "ord' = snd (workerOutcome clk c pf router ord)"
  have res: "fst (workerOutcome clk c pf router ord) = Inr hash"
    using orderWorker_result(1) [OF ord, of clk pf router] run by (simp add: c_def)
  have row: "orders w' (OrderJobData.orderId d) = Some ord'"
    using orderWorker_result(2) [OF ord, of clk pf router] run by (simp add: c_def ord'_def)
  note facts = workerOutcome_Inr [OF res, folded ord'_def]
  have ts: "sorted (map timestamp (parseStatusHistory (statusHistory ord')))"
    if m: "mono clk" and s: "sorted (map timestamp (parseStatusHistory (statusHistory ord)))"
      and b: "\<forall>e \<in> set (parseStatusHistory (statusHistory ord)). timestamp e \<le> clk c"
  proof -
    have steps: "clk c \<le> clk (c + 3)" "clk (c + 3) \<le> clk (c + 6)" "clk (c + 6) \<le> clk (c + 9)"
      using m by (simp_all add: monoD)
    then have tail: "sorted [clk c, clk (c + 3), clk (c + 6), clk (c + 9)]"
      by simp
    have "\<forall>x \<in> set (map timestamp (parseStatusHistory (statusHistory ord))).
            \<forall>y \<in> set [clk c, clk (c + 3), clk (c + 6), clk (c + 9)]. x \<le> y"
      using b steps by fastforce
    with s tail show ?thesis
      unfolding facts(3) sorted_append by blast
  qed
  show ?thesis
    using row facts(1) facts(2) ts unfolding c_def [symmetric] by auto
qed

theorem orderWorker_success_history_witness:
  "fst (orderWorker exampleClock parseFloat_decimal workingRouter exampleJobData submittedWorld) =
     Inr ''0xabc'' \<and>
   orders submittedWorld ''order-1'' = Some exampleOrder \<and>
   map StatusTransition.status (parseStatusHistory (statusHistory exampleOrder)) = [Pending] \<and>
   mono exampleClock \<and>
   map timestamp (parseStatusHistory (statusHistory exampleOrder)) = [1000] \<and>
   exampleClock (clockReads submittedWorld) = 1002 \<and>
   (\<exists>ord'. orders (snd (orderWorker exampleClock parseFloat_decimal workingRouter exampleJobData
                         submittedWorld)) ''order-1'' = Some ord' \<and>
      status ord' = Confirmed \<and>
      map StatusTransition.status (parseStatusHistory (statusHistory ord')) =
        [Pending, Routing, Building, Submitted, Confirmed] \<and>
      sorted (map timestamp (parseStatusHistory (statusHistory ord'))))"
proof -
  have o: "orders submittedWorld (OrderJobData.orderId exampleJobData) = Some exampleOrder"
    by (simp add: executeOrder_example exampleJobData_def)
  have r: "fst (orderWorker exampleClock parseFloat_decimal workingRouter exampleJobData submittedWorld) =
     Inr ''0xabc''"
    by (simp add: orderWorker_result(1) [OF o] workerOutcome_def workingRouter_def Let_def)
  then have run: "orderWorker exampleClock parseFloat_decimal workingRouter exampleJobData submittedWorld =
     (Inr ''0xabc'', snd (orderWorker exampleClock parseFloat_decimal workingRouter exampleJobData submittedWorld))"
    by (metis prod.collapse)
  have m: "mono exampleClock"
    by (simp add: mono_def exampleClock_def)
  have h: "parseStatusHistory (statusHistory exampleOrder) = [pendingEntry]"
    by (simp add: exampleOrder_def)
  from orderWorker_success_history [OF run o]
  show ?thesis
    using r o m h
    by (auto simp: executeOrder_example exampleJobData_def pendingEntry_def exampleClock_def)
qed

text \<open>
  C4 as stated fails for a lifecycle completed on a retry: after an attempt that failed
  at the quote step and a second attempt that returns, the order is \<open>confirmed\<close> and its
  history reads \<open>pending, routing, failed, routing, building, submitted, confirmed\<close>.
\<close>

theorem orderWorker_retry_history:
  "fst (orderWorker exampleClock parseFloat_decimal failingRouter exampleJobData submittedWorld) =
     Inl (Error ''boom'') \<and>
   fst (orderWorker exampleClock parseFloat_decimal workingRouter exampleJobData retryWorld) =
     Inr ''0xabc'' \<and>
   map_option status (orders finalWorld ''order-1'') = Some Confirmed \<and>
   map_option (map StatusTransition.status \<circ> parseStatusHistory \<circ> statusHistory)
     (orders finalWorld ''order-1'') =
     Some [Pending, Routing, Failed, Routing, Building, Submitted, Confirmed]"
proof -
  have o: "orders submittedWorld (OrderJobData.orderId exampleJobData) = Some exampleOrder"
    by (simp add: executeOrder_example exampleJobData_def)
  define failedOrder where
    "failedOrder = snd (workerOutcome exampleClock 2 parseFloat_decimal failingRouter exampleOrder)"
  have o2: "orders retryWorld (OrderJobData.orderId exampleJobData) = Some failedOrder"
    by (simp add: retryWorld_def orderWorker_result(2) [OF o] executeOrder_example failedOrder_def)
  have h: "map StatusTransition.status (parseStatusHistory (statusHistory failedOrder)) =
             [Pending, Routing, Failed]"
    by (simp add: failedOrder_def workerOutcome_def failingRouter_def Let_def transitionRow_simps
          exampleOrder_def pendingEntry_def)
  have r1: "fst (orderWorker exampleClock parseFloat_decimal failingRouter exampleJobData submittedWorld) =
     Inl (Error ''boom'')"
    by (simp add: orderWorker_result(1) [OF o] workerOutcome_def failingRouter_def Let_def)
  have r2: "fst (workerOutcome exampleClock (clockReads retryWorld) parseFloat_decimal workingRouter failedOrder) = Inr ''0xabc''"
    by (simp add: workerOutcome_def workingRouter_def Let_def)
  have r2': "fst (orderWorker exampleClock parseFloat_decimal workingRouter exampleJobData retryWorld) =
     Inr ''0xabc''"
    by (simp add: orderWorker_result(1) [OF o2] r2)
  have f: "orders finalWorld ''order-1'' =
     Some (snd (workerOutcome exampleClock (clockReads retryWorld) parseFloat_decimal workingRouter failedOrder))"
    unfolding finalWorld_def orderWorker_result(2) [OF o2] by (simp add: exampleJobData_def)
  show ?thesis
    using r1 r2' by (simp add: f workerOutcome_Inr [OF r2] h)
qed




text \<open>
  C6. \<open>addOrderToQueue\<close> names the job by the order id. Called twice with the same order
  id, the second call returns the job of the first and leaves the queue as the first
  call left it; whenever a job with that id is waiting or active, the call returns that
  job and creates none. After the call the queue holds one live job with that id if it
  held none before, and as many as before otherwise.
\<close>

theorem addOrderToQueue_idempotent:
  "jobId (fst (addOrderToQueue d q)) = OrderJobData.orderId d \<and>
   addOrderToQueue d (snd (addOrderToQueue d q)) = addOrderToQueue d q \<and>
   (\<forall>q' j. find (liveJob (OrderJobData.orderId d)) q' = Some j \<longrightarrow> addOrderToQueue d q' = (j, q')) \<and>
   length (filter (liveJob (OrderJobData.orderId d)) (snd (addOrderToQueue d q))) =
     max 1 (length (filter (liveJob (OrderJobData.orderId d)) q))"
proof (intro conjI allI impI)
  have "liveJob (OrderJobData.orderId d) (fst (addOrderToQueue d q))"
    using addOrderToQueue_finds_result [of d q] by (rule find_holds)
  then show "jobId (fst (addOrderToQueue d q)) = OrderJobData.orderId d"
    by (simp add: liveJob_def)
next
  show "addOrderToQueue d (snd (addOrderToQueue d q)) = addOrderToQueue d q"
    using addOrderToQueue_found [OF addOrderToQueue_finds_result [of d q]] by simp
next
  fix q' j
  assume "find (liveJob (OrderJobData.orderId d)) q' = Some j"
  then show "addOrderToQueue d q' = (j, q')"
    by (rule addOrderToQueue_found)
next
  show "length (filter (liveJob (OrderJobData.orderId d)) (snd (addOrderToQueue d q))) =
     max 1 (length (filter (liveJob (OrderJobData.orderId d)) q))"
  proof (cases "find (liveJob (OrderJobData.orderId d)) q")
    case None
    then have "filter (liveJob (OrderJobData.orderId d)) q = []"
      by (simp add: find_None_iff filter_empty_conv)
    with None show ?thesis
      by (simp add: addOrderToQueue_def queueAdd_def Let_def liveJob_def)
  next
    case (Some j)
    then have "j \<in> set (filter (liveJob (OrderJobData.orderId d)) q)"
      by (auto simp: find_Some_iff)
    then have "1 \<le> length (filter (liveJob (OrderJobData.orderId d)) q)"
      by (cases "filter (liveJob (OrderJobData.orderId d)) q") simp_all
    with Some show ?thesis
      by (simp add: addOrderToQueue_def queueAdd_def max_def)
  qed
qed

theorem addOrderToQueue_idempotent_witness:
  "jobId (fst (addOrderToQueue exampleJobData [completedJob])) = ''order-1'' \<and>
   map jobId (snd (addOrderToQueue exampleJobData [completedJob])) = [''order-0'', ''order-1''] \<and>
   addOrderToQueue exampleJobData (snd (addOrderToQueue exampleJobData [completedJob])) =
     addOrderToQueue exampleJobData [completedJob] \<and>
   find (liveJob ''order-1'') [completedJob, activeJob] = Some activeJob \<and>
   addOrderToQueue exampleJobData [completedJob, activeJob] = (activeJob, [completedJob, activeJob]) \<and>
   length (filter (liveJob ''order-1'') (snd (addOrderToQueue exampleJobData [completedJob]))) = 1"
  using addOrderToQueue_idempotent [of exampleJobData "[completedJob]"]
        addOrderToQueue_idempotent [of exampleJobData "[completedJob, activeJob]"]
  by (simp add: addOrderToQueue_def queueAdd_def liveJob_def exampleJobData_def activeJob_def
        completedJob_def Let_def)

text \<open>
  C7. A request whose \<open>tokenIn\<close> or \<open>tokenOut\<close> is the empty string, whose \<open>amountIn\<close>
  is not a string that reads as a non-negative decimal number, or whose \<open>orderType\<close> is
  present and not \<open>market\<close>, is answered with 400 and \<open>Validation error\<close>, and the state
  is returned as it was: no order row, no job, no reading of the clock.
\<close>

theorem executeOrder_rejects_invalid:
  assumes "OrderRequest.tokenIn body = Text [] \<or> OrderRequest.tokenOut body = Text [] \<or>
           (\<forall>s. OrderRequest.amountIn body = Text s \<longrightarrow> \<not> nonNegativeDecimal s) \<or>
           (orderType body \<noteq> Absent \<and> orderType body \<noteq> Text ''market'')"
  shows "executeOrder clk uuid body w = (Reply 400 (ErrorBody ''Validation error'' None), w)"
proof -
  have "safeParse body = None"
    using assms amountPattern_nonNegativeDecimal
    by (auto simp: safeParse_def split: field.splits)
  then show ?thesis
    by (simp add: executeOrder_def)
qed

theorem executeOrder_rejects_invalid_witness:
  "executeOrder exampleClock ''order-2'' (exampleBody\<lparr>OrderRequest.tokenIn := Text []\<rparr>) submittedWorld =
     (Reply 400 (ErrorBody ''Validation error'' None), submittedWorld) \<and>
   executeOrder exampleClock ''order-2'' (exampleBody\<lparr>OrderRequest.tokenOut := Text []\<rparr>) submittedWorld =
     (Reply 400 (ErrorBody ''Validation error'' None), submittedWorld) \<and>
   \<not> nonNegativeDecimal ''abc'' \<and>
   executeOrder exampleClock ''order-2'' (exampleBody\<lparr>OrderRequest.amountIn := Text ''abc''\<rparr>) submittedWorld =
     (Reply 400 (ErrorBody ''Validation error'' None), submittedWorld) \<and>
   \<not> nonNegativeDecimal ''-5'' \<and>
   executeOrder exampleClock ''order-2'' (exampleBody\<lparr>OrderRequest.amountIn := Text ''-5''\<rparr>) submittedWorld =
     (Reply 400 (ErrorBody ''Validation error'' None), submittedWorld) \<and>
   executeOrder exampleClock ''order-2'' (exampleBody\<lparr>orderType := Text ''limit''\<rparr>) submittedWorld =
     (Reply 400 (ErrorBody ''Validation error'' None), submittedWorld)"
proof -
  have a: "\<not> nonNegativeDecimal ''abc''"
    by (simp add: nonNegativeDecimal_def decimalValue_def isDigit_def)
  have b: "\<not> nonNegativeDecimal ''-5''"
    by (simp add: nonNegativeDecimal_def decimalValue_def isDigit_def digitsToNat_def digitValue_def)
  show ?thesis
    using a b
      executeOrder_rejects_invalid [of "exampleBody\<lparr>OrderRequest.tokenIn := Text []\<rparr>"
        exampleClock "''order-2''" submittedWorld]
      executeOrder_rejects_invalid [of "exampleBody\<lparr>OrderRequest.tokenOut := Text []\<rparr>"
        exampleClock "''order-2''" submittedWorld]
      executeOrder_rejects_invalid [of "exampleBody\<lparr>OrderRequest.amountIn := Text ''abc''\<rparr>"
        exampleClock "''order-2''" submittedWorld]
      executeOrder_rejects_invalid [of "exampleBody\<lparr>OrderRequest.amountIn := Text ''-5''\<rparr>"
        exampleClock "''order-2''" submittedWorld]
      executeOrder_rejects_invalid [of "exampleBody\<lparr>orderType := Text ''limit''\<rparr>"
        exampleClock "''order-2''" submittedWorld]
    by simp
qed

text \<open>
  C8. A broadcast of an order snapshot sends the \<open>status_update\<close> message of that
  snapshot to exactly the clients in the order's subscriber set that are registered, open
  and whose \<open>send\<close> does not throw, once each and in the set's order. A client that is
  not in the set gets nothing; a client unregistered before the broadcast gets nothing.
  Every subscriber that is unregistered, closed or whose \<open>send\<close> throws is removed from
  the registry and from every subscriber set; the clients that can be sent to stay
  registered and subscribed, so one failed send does not stop the others.
\<close>

theorem broadcastOrderUpdate_reaches_open_subscribers:
  assumes "broadcastOrderUpdate now ord m = (m', out)"
  shows "map fst out = filter (delivers m) (subscribers m (orderKey ord)) \<and>
    (\<forall>c. (c \<in> fst ` set out) = (c \<in> set (subscribers m (orderKey ord)) \<and> delivers m c)) \<and>
    (\<forall>p \<in> set out. snd p = \<lparr>msgType = ''status_update'', orderId = orderKey ord,
                              msgStatus = status ord, order = ord, msgTimestamp = now\<rparr>) \<and>
    (\<forall>c. c \<notin> fst ` set (snd (broadcastOrderUpdate now ord (unregisterClient c m)))) \<and>
    (\<forall>c. c \<in> set (subscribers m (orderKey ord)) \<and> \<not> delivers m c \<longrightarrow>
           clients m' c = None \<and> (\<forall>oid s. orderClients m' oid = Some s \<longrightarrow> c \<notin> set s)) \<and>
    (\<forall>c. delivers m c \<longrightarrow>
           clients m' c = clients m c \<and>
           (\<forall>oid. c \<in> set (subscribers m oid) \<longrightarrow> c \<in> set (subscribers m' oid)))"
proof -
  define msg where "msg = \<lparr>msgType = ''status_update'', orderId = orderKey ord,
                              msgStatus = status ord, order = ord, msgTimestamp = now\<rparr>"
  define subs where "subs = subscribers m (orderKey ord)"
  define ds where "ds = filter (\<lambda>c. \<not> delivers m c) subs"
  have run: "sendToClients msg subs m [] = (m', out)"
    using assms by (simp add: broadcastOrderUpdate_def Let_def msg_def subs_def subscribers_def)
  have out: "out = map (\<lambda>c. (c, msg)) (filter (delivers m) subs)"
    using sendToClients_out [of msg subs m "[]"] run by simp
  have m': "m' = fold unregisterClient ds m"
    using sendToClients_manager [of msg subs m "[]"] run by (simp add: ds_def)
  have a: "map fst out = filter (delivers m) subs"
    by (simp add: out comp_def)
  have b: "(c \<in> fst ` set out) = (c \<in> set subs \<and> delivers m c)" for c
  proof -
    have "fst ` set out = set (filter (delivers m) subs)"
      using a by (metis list.set_map)
    then show ?thesis by simp
  qed
  have c: "\<forall>p \<in> set out. snd p = msg"
    by (auto simp: out)
  have d: "c \<notin> fst ` set (snd (broadcastOrderUpdate now ord (unregisterClient c m)))" for c
  proof -
    have "\<not> delivers (unregisterClient c m) c"
      by (simp add: delivers_def clients_unregisterClient)
    moreover have "map fst (snd (broadcastOrderUpdate now ord (unregisterClient c m))) =
        filter (delivers (unregisterClient c m)) (subscribers (unregisterClient c m) (orderKey ord))"
      by (simp add: broadcastOrderUpdate_def Let_def sendToClients_out subscribers_def comp_def)
    ultimately have "c \<notin> set (map fst (snd (broadcastOrderUpdate now ord (unregisterClient c m))))"
      by simp
    then show ?thesis by simp
  qed
  have e: "clients m' c = None \<and> (\<forall>oid s. orderClients m' oid = Some s \<longrightarrow> c \<notin> set s)"
    if "c \<in> set subs \<and> \<not> delivers m c" for c
  proof -
    from that have "c \<in> set ds" by (simp add: ds_def)
    then show ?thesis
      by (auto simp: m' clients_fold_unregisterClient orderClients_fold_unregisterClient
            split: option.splits if_splits)
  qed
  have f: "clients m' c = clients m c \<and>
           (\<forall>oid. c \<in> set (subscribers m oid) \<longrightarrow> c \<in> set (subscribers m' oid))"
    if "delivers m c" for c
  proof -
    from that have "c \<notin> set ds" by (simp add: ds_def)
    then show ?thesis
      by (auto simp: m' subscribers_def clients_fold_unregisterClient
            orderClients_fold_unregisterClient filter_empty_conv
            split: option.splits if_splits)
  qed
  show ?thesis
    using a b c d e f unfolding msg_def subs_def by blast
qed

theorem broadcastOrderUpdate_reaches_open_subscribers_witness:
  "map fst (snd (broadcastOrderUpdate 1004 exampleState exampleManager)) = [''c1''] \<and>
   subscribers exampleManager ''order-1'' = [''c2'', ''c3'', ''c1''] \<and>
   delivers exampleManager ''c1'' \<and> delivers exampleManager ''c4'' \<and>
   \<not> delivers exampleManager ''c2'' \<and> \<not> delivers exampleManager ''c3'' \<and>
   clients (fst (broadcastOrderUpdate 1004 exampleState exampleManager)) ''c2'' = None \<and>
   clients (fst (broadcastOrderUpdate 1004 exampleState exampleManager)) ''c3'' = None \<and>
   clients (fst (broadcastOrderUpdate 1004 exampleState exampleManager)) ''c1'' = Some openSocket \<and>
   subscribers (fst (broadcastOrderUpdate 1004 exampleState exampleManager)) ''order-1'' = [''c1''] \<and>
   subscribers (fst (broadcastOrderUpdate 1004 exampleState exampleManager)) ''order-2'' = [''c4'']"
proof -
  have d: "delivers exampleManager ''c1'' \<and> delivers exampleManager ''c4'' \<and>
           \<not> delivers exampleManager ''c2'' \<and> \<not> delivers exampleManager ''c3''"
    by (simp add: delivers_def exampleManager_def openSocket_def)
  have s: "subscribers exampleManager ''order-1'' = [''c2'', ''c3'', ''c1'']"
    by (simp add: subscribers_def exampleManager_def)
  have k: "orderKey exampleState = ''order-1''"
    by (simp add: exampleState_def)
  from broadcastOrderUpdate_reaches_open_subscribers
         [OF prod.collapse [symmetric], of 1004 exampleState exampleManager]
  show ?thesis
    using d s k
    by (simp add: broadcastOrderUpdate_def exampleManager_def exampleState_def
          unregisterClient_def subscribers_def openSocket_def Let_def)
qed

text \<open>
  C9. \<open>unregisterClient\<close> removes the connection from the client registry and from the
  subscriber set of every order, leaves the other connections as they were, and is
  idempotent: unregistering the same connection again changes nothing.
\<close>

theorem unregisterClient_removes_and_idempotent:
  "clients (unregisterClient c m) c = None \<and>
   (\<forall>oid s. orderClients (unregisterClient c m) oid = Some s \<longrightarrow> c \<notin> set s) \<and>
   (\<forall>c'. c' \<noteq> c \<longrightarrow> clients (unregisterClient c m) c' = clients m c') \<and>
   (\<forall>oid. subscribers (unregisterClient c m) oid = removeAll c (subscribers m oid)) \<and>
   unregisterClient c (unregisterClient c m) = unregisterClient c m"
proof (intro conjI allI impI)
  show "clients (unregisterClient c m) c = None"
    by (simp add: clients_unregisterClient)
next
  fix oid s
  assume "orderClients (unregisterClient c m) oid = Some s"
  then show "c \<notin> set s"
    by (auto simp: orderClients_unregisterClient split: option.splits if_splits)
next
  fix c' :: string
  assume "c' \<noteq> c"
  then show "clients (unregisterClient c m) c' = clients m c'"
    by (simp add: clients_unregisterClient)
next
  fix oid
  show "subscribers (unregisterClient c m) oid = removeAll c (subscribers m oid)"
    by (simp add: subscribers_def orderClients_unregisterClient split: option.splits)
next
  show "unregisterClient c (unregisterClient c m) = unregisterClient c m"
    by (rule unregisterClient_twice)
qed

theorem unregisterClient_removes_and_idempotent_witness:
  "clients (unregisterClient ''c2'' exampleManager) ''c2'' = None \<and>
   orderClients (unregisterClient ''c2'' exampleManager) ''order-1'' = Some [''c3'', ''c1''] \<and>
   ''c2'' \<notin> set [''c3'', ''c1''] \<and>
   ''c4'' \<noteq> ''c2'' \<and>
   clients (unregisterClient ''c2'' exampleManager) ''c4'' = Some openSocket \<and>
   subscribers (unregisterClient ''c2'' exampleManager) ''order-2'' = [''c4''] \<and>
   unregisterClient ''c2'' (unregisterClient ''c2'' exampleManager) =
     unregisterClient ''c2'' exampleManager"
  using unregisterClient_removes_and_idempotent [of "''c2''" exampleManager]
  by (simp add: orderClients_unregisterClient clients_unregisterClient exampleManager_def
        subscribers_def)

text \<open>
  C10. When the stored \<open>statusHistory\<close> does not parse as JSON, or parses to a value
  that is no array, \<open>updateOrderStatus\<close> raises no error: it persists a history that
  holds the new entry alone, whatever the column held.
\<close>

theorem updateOrderStatus_resets_unreadable_history:
  assumes "orders w oid = Some ord"
    and "statusHistory ord = BadJson t \<or> statusHistory ord = NonArrayJson t"
  shows "\<exists>w' ord'. updateOrderStatus clk oid s u w = Inr w' \<and>
           orders w' oid = Some ord' \<and>
           statusHistory ord' =
             ArrayJson [\<lparr>StatusTransition.status = s, timestamp = clk (clockReads w), metadata = u\<rparr>]"
  using updateOrderStatus_found [OF assms(1), of clk s u] assms(2) by auto

theorem updateOrderStatus_resets_unreadable_history_witness:
  "orders (worldWith (confirmedOrder\<lparr>statusHistory := BadJson ''[{''\<rparr>)) ''order-1'' =
     Some (confirmedOrder\<lparr>statusHistory := BadJson ''[{''\<rparr>) \<and>
   \<not> isl (updateOrderStatus exampleClock ''order-1'' Failed noUpdates
            (worldWith (confirmedOrder\<lparr>statusHistory := BadJson ''[{''\<rparr>))) \<and>
   map_option statusHistory
     (orders (projr (updateOrderStatus exampleClock ''order-1'' Failed noUpdates
                (worldWith (confirmedOrder\<lparr>statusHistory := BadJson ''[{''\<rparr>)))) ''order-1'') =
     Some (ArrayJson [\<lparr>StatusTransition.status = Failed, timestamp = 1002, metadata = noUpdates\<rparr>])"
proof -
  have h: "orders (worldWith (confirmedOrder\<lparr>statusHistory := BadJson ''[{''\<rparr>)) ''order-1'' =
     Some (confirmedOrder\<lparr>statusHistory := BadJson ''[{''\<rparr>)"
    by (simp add: worldWith_def)
  from updateOrderStatus_resets_unreadable_history
         [OF h, of "''[{''" exampleClock Failed noUpdates]
  show ?thesis
    using h by (auto simp: exampleClock_def worldWith_def)
qed

end
